theory Spec2Isabelle
  imports Complex_Main "HOL-Library.Sublist" "HOL-Library.Char_ord" "HOL-Library.List_Lexorder"
begin

section \<open>JavaScript strings\<close>

text \<open>
  A string is a list of code units. The model covers the code units U+0000 to U+00FF
  (Latin-1), on which \<open>char\<close> is exact: \<open>String.prototype.toLowerCase\<close> maps A-Z and
  U+00C0-U+00DE (without the multiplication sign U+00D7) to the code unit 32 above and
  leaves every other code unit of that range alone; \<open>String.prototype.trim\<close> strips
  TAB, LF, VT, FF, CR, SPACE and NBSP from both ends.
\<close>

definition upper_chars :: string where
  "upper_chars = ''ABCDEFGHIJKLMNOPQRSTUVWXYZ'' @
     [CHR 0xC0, CHR 0xC1, CHR 0xC2, CHR 0xC3, CHR 0xC4, CHR 0xC5, CHR 0xC6, CHR 0xC7,
      CHR 0xC8, CHR 0xC9, CHR 0xCA, CHR 0xCB, CHR 0xCC, CHR 0xCD, CHR 0xCE, CHR 0xCF,
      CHR 0xD0, CHR 0xD1, CHR 0xD2, CHR 0xD3, CHR 0xD4, CHR 0xD5, CHR 0xD6,
      CHR 0xD8, CHR 0xD9, CHR 0xDA, CHR 0xDB, CHR 0xDC, CHR 0xDD, CHR 0xDE]"

definition lower_chars :: string where
  "lower_chars = ''abcdefghijklmnopqrstuvwxyz'' @
     [CHR 0xE0, CHR 0xE1, CHR 0xE2, CHR 0xE3, CHR 0xE4, CHR 0xE5, CHR 0xE6, CHR 0xE7,
      CHR 0xE8, CHR 0xE9, CHR 0xEA, CHR 0xEB, CHR 0xEC, CHR 0xED, CHR 0xEE, CHR 0xEF,
      CHR 0xF0, CHR 0xF1, CHR 0xF2, CHR 0xF3, CHR 0xF4, CHR 0xF5, CHR 0xF6,
      CHR 0xF8, CHR 0xF9, CHR 0xFA, CHR 0xFB, CHR 0xFC, CHR 0xFD, CHR 0xFE]"

definition toLowerCase_char :: "char \<Rightarrow> char" where
  "toLowerCase_char c =
     (case map_of (zip upper_chars lower_chars) c of Some d \<Rightarrow> d | None \<Rightarrow> c)"

definition toLowerCase :: "string \<Rightarrow> string" where
  "toLowerCase s = map toLowerCase_char s"

definition is_whitespace :: "char \<Rightarrow> bool" where
  "is_whitespace c \<longleftrightarrow>
     c \<in> set [CHR 0x09, CHR 0x0A, CHR 0x0B, CHR 0x0C, CHR 0x0D, CHR '' '', CHR 0xA0]"

definition trim :: "string \<Rightarrow> string" where
  "trim s = rev (dropWhile is_whitespace (rev (dropWhile is_whitespace s)))"

text \<open>
  \<open>s.startsWith(t)\<close> is \<^term>\<open>prefix t s\<close>. \<open>s.includes(t)\<close>, here \<open>includes_str s t\<close>
  since \<open>includes\<close> is a reserved word, asks for \<open>t\<close> at some position of \<open>s\<close>
  (the empty string is included in every string).
\<close>

definition startsWith :: "string \<Rightarrow> string \<Rightarrow> bool" where
  "startsWith s t \<longleftrightarrow> prefix t s"

fun includes_str :: "string \<Rightarrow> string \<Rightarrow> bool" where
  "includes_str [] t \<longleftrightarrow> t = []"
| "includes_str (c # cs) t \<longleftrightarrow> prefix t (c # cs) \<or> includes_str cs t"

text \<open>\<open>Array.prototype.join(sep)\<close> on an array of strings.\<close>

fun join :: "string \<Rightarrow> string list \<Rightarrow> string" where
  "join sep [] = []"
| "join sep [x] = x"
| "join sep (x # y # ys) = x @ sep @ join sep (y # ys)"

section \<open>Data model (lib/types/product.ts, lib/types/api.ts)\<close>

text \<open>
  Numbers that the code treats as integers (prices in cents, quantities, timestamps in
  milliseconds, scores) are \<open>int\<close>; the rating average and the page and limit arguments,
  which the code passes through \<open>Math.floor\<close>, are \<open>real\<close>. NaN is outside the model,
  and an infinity appears only where the code itself produces one
  (\<open>Math.min()\<close> and \<open>Math.max()\<close> without arguments).
  An optional field \<open>f?: T\<close> is a \<open>T option\<close>, \<open>None\<close> for \<open>undefined\<close>.
  The field \<open>id\<close> is \<open>id'\<close> here; the fields of \<open>FilterParams\<close> carry the prefix \<open>f_\<close>
  and \<open>total\<close> of \<open>PaginationMeta\<close> is \<open>total'\<close>, as two records cannot share a field name
  and \<open>id\<close>, \<open>total\<close> are constants of HOL.
\<close>

record Inventory =
  inStock :: bool
  quantity :: int
  lowStockThreshold :: int
  reservedQuantity :: int

record Image =
  url :: string
  alt :: string
  isPrimary :: bool

record Rating =
  average :: real
  count :: int

datatype AttributeValue = AString string | ANumber real | ABoolean bool

record Product =
  id' :: string
  slug :: string
  sku :: string
  name :: string
  description :: string
  longDescription :: "string option"
  price :: int
  originalPrice :: "int option"
  currency :: string
  category :: string
  subcategory :: "string option"
  tags :: "string list"
  inventory :: Inventory
  images :: "Image list"
  featured :: bool
  isNew :: bool
  rating :: "Rating option"
  attributes :: "(string \<times> AttributeValue) list"
  createdAt :: int
  updatedAt :: int
  publishedAt :: "int option"

record FilterParams =
  f_category :: "string option"
  f_minPrice :: "int option"
  f_maxPrice :: "int option"
  f_inStock :: "bool option"
  f_tags :: "string list option"
  f_search :: "string option"
  f_sortBy :: "string option"
  f_page :: "real option"
  f_limit :: "real option"

record PaginationMeta =
  page :: int
  limit :: int
  total' :: int
  totalPages :: int
  hasNext :: bool
  hasPrev :: bool

record 'a PaginatedResponse =
  data :: "'a list"
  pagination :: PaginationMeta

section \<open>Filter stage (filterProducts, lib/api/filter-service.ts)\<close>

text \<open>
  The callback of \<open>products.filter\<close>, one early \<open>return false\<close> per criterion, in the
  order of the source. JavaScript truthiness is written out: an optional string is truthy
  when present and non-empty, an optional boolean when present and true.
\<close>

definition searchableText :: "Product \<Rightarrow> string" where
  "searchableText product =
     toLowerCase (join '' '' ([name product, description product] @ tags product @ [category product]))"

definition filterProducts_callback :: "FilterParams \<Rightarrow> Product \<Rightarrow> bool" where
  "filterProducts_callback filters product =
     (if (case f_category filters of None \<Rightarrow> False
          | Some c \<Rightarrow> c \<noteq> [] \<and> category product \<noteq> c) then False
      else if (case f_minPrice filters of None \<Rightarrow> False
          | Some m \<Rightarrow> price product < m) then False
      else if (case f_maxPrice filters of None \<Rightarrow> False
          | Some m \<Rightarrow> price product > m) then False
      else if (case f_inStock filters of None \<Rightarrow> False
          | Some b \<Rightarrow> b \<and> \<not> inStock (inventory product)) then False
      else if (case f_tags filters of None \<Rightarrow> False
          | Some ts \<Rightarrow> length ts > 0 \<and>
              \<not> list_ex (\<lambda>filterTag. filterTag \<in> set (tags product)) ts) then False
      else if (case f_search filters of None \<Rightarrow> False
          | Some s \<Rightarrow> s \<noteq> [] \<and>
              \<not> includes_str (searchableText product) (trim (toLowerCase s))) then False
      else True)"

definition filterProducts :: "Product list \<Rightarrow> FilterParams \<Rightarrow> Product list" where
  "filterProducts products filters = filter (filterProducts_callback filters) products"

section \<open>Sorting with a comparator (Array.prototype.sort)\<close>

text \<open>
  \<open>Array.prototype.sort(compareFn)\<close> is stable (ECMAScript 2019): for a consistent
  comparator the result is the one ordering in which \<open>a\<close> precedes \<open>b\<close> whenever
  \<open>compareFn(a, b) < 0\<close>, and elements that compare equal keep their order. Insertion
  from the right computes it: an element goes in front of the first element it does not
  compare greater than.
\<close>

fun insert_by :: "('a \<Rightarrow> 'a \<Rightarrow> 'n::{zero,ord}) \<Rightarrow> 'a \<Rightarrow> 'a list \<Rightarrow> 'a list" where
  "insert_by compareFn x [] = [x]"
| "insert_by compareFn x (y # ys) =
     (if compareFn x y \<le> 0 then x # y # ys else y # insert_by compareFn x ys)"

definition sort_by :: "('a \<Rightarrow> 'a \<Rightarrow> 'n::{zero,ord}) \<Rightarrow> 'a list \<Rightarrow> 'a list" where
  "sort_by compareFn xs = foldr (insert_by compareFn) xs []"

section \<open>Sort stage (sortProducts, lib/api/filter-service.ts)\<close>

text \<open>
  \<open>String.prototype.localeCompare\<close> depends on the collation of the host, so it is a
  parameter. \<open>b.rating?.average || 0\<close> is 0 for a product without rating.
\<close>

definition sortProducts ::
  "(string \<Rightarrow> string \<Rightarrow> int) \<Rightarrow> Product list \<Rightarrow> string option \<Rightarrow> Product list" where
  "sortProducts localeCompare products sortBy =
     (let sorted = products
      in case sortBy of
           None \<Rightarrow> sorted
         | Some key \<Rightarrow>
             if key = [] then sorted
             else if key = ''price-asc'' then sort_by (\<lambda>a b. price a - price b) sorted
             else if key = ''price-desc'' then sort_by (\<lambda>a b. price b - price a) sorted
             else if key = ''name'' then sort_by (\<lambda>a b. localeCompare (name a) (name b)) sorted
             else if key = ''newest'' then sort_by (\<lambda>a b. createdAt b - createdAt a) sorted
             else if key = ''rating'' then
               sort_by (\<lambda>a b. (case rating b of None \<Rightarrow> 0 | Some r \<Rightarrow> average r)
                             - (case rating a of None \<Rightarrow> 0 | Some r \<Rightarrow> average r)) sorted
             else sorted)"

section \<open>Search stage (searchProducts, lib/api/filter-service.ts)\<close>

text \<open>
  \<open>score_tags\<close> is the \<open>product.tags.forEach\<close> loop, which adds to the running score;
  \<open>score\<close> is the body of the \<open>map\<close> callback, one \<open>let\<close> per statement of the source.
\<close>

definition score_tags :: "string \<Rightarrow> string list \<Rightarrow> int \<Rightarrow> int" where
  "score_tags searchTerm ts s0 =
     fold (\<lambda>tag s. if toLowerCase tag = searchTerm then s + 30
                    else if includes_str (toLowerCase tag) searchTerm then s + 10
                    else s) ts s0"

definition score :: "string \<Rightarrow> Product \<Rightarrow> int" where
  "score searchTerm product =
     (let s0 = 0;
          s1 = (if toLowerCase (name product) = searchTerm then s0 + 100
                else if includes_str (toLowerCase (name product)) searchTerm
                then (if startsWith (toLowerCase (name product)) searchTerm
                      then s0 + 50 + 10 else s0 + 50)
                else s0);
          s2 = (if includes_str (toLowerCase (description product)) searchTerm
                then s1 + 20 else s1);
          s3 = (if (case longDescription product of None \<Rightarrow> False
                    | Some d \<Rightarrow> includes_str (toLowerCase d) searchTerm)
                then s2 + 10 else s2);
          s4 = score_tags searchTerm (tags product) s3;
          s5 = (if includes_str (toLowerCase (category product)) searchTerm
                then s4 + 5 else s4);
          s6 = (if featured product then s5 + 5 else s5);
          s7 = (if inStock (inventory product) then s6 + 3 else s6)
      in s7)"

definition searchProducts :: "string \<Rightarrow> Product list \<Rightarrow> Product list" where
  "searchProducts query products =
     (let searchTerm = trim (toLowerCase query)
      in if searchTerm = [] then []
         else map fst
               (sort_by (\<lambda>a b. snd b - snd a)
                 (filter (\<lambda>scored. snd scored > 0)
                   (map (\<lambda>product. (product, score searchTerm product)) products))))"

section \<open>Facet summary (getAvailableFilterOptions, lib/api/filter-service.ts)\<close>

text \<open>
  \<open>Math.min\<close> and \<open>Math.max\<close> of no arguments are \<open>Infinity\<close> and \<open>-Infinity\<close>, so their
  results live in the integers extended by the two infinities. \<open>Array.from(new Set(xs))\<close>
  lists the distinct elements of \<open>xs\<close> in the order of their first occurrence, and
  \<open>sort()\<close> without comparator orders strings by code units, which is the lexicographic
  order on \<open>string\<close>. The fields \<open>tags\<close>, \<open>min\<close> and \<open>max\<close> of the result are \<open>tags'\<close>,
  \<open>min'\<close> and \<open>max'\<close> here.
\<close>

datatype number = NegInfinity | Finite int | Infinity

definition Math_min :: "int list \<Rightarrow> number" where
  "Math_min values = (case values of [] \<Rightarrow> Infinity | v # vs \<Rightarrow> Finite (fold min vs v))"

definition Math_max :: "int list \<Rightarrow> number" where
  "Math_max values = (case values of [] \<Rightarrow> NegInfinity | v # vs \<Rightarrow> Finite (fold max vs v))"

definition Array_from_Set :: "'a list \<Rightarrow> 'a list" where
  "Array_from_Set xs = fold (\<lambda>x seen. if x \<in> set seen then seen else seen @ [x]) xs []"

record PriceRange =
  min' :: number
  max' :: number

record FilterOptions =
  categories :: "string list"
  tags' :: "string list"
  priceRange :: PriceRange

definition getAvailableFilterOptions :: "Product list \<Rightarrow> FilterOptions" where
  "getAvailableFilterOptions products =
     (let cs = sort (Array_from_Set (map category products));
          ts = sort (Array_from_Set (concat (map tags products)));
          prices = map price products;
          range = \<lparr> min' = Math_min prices, max' = Math_max prices \<rparr>
      in \<lparr> categories = cs, tags' = ts, priceRange = range \<rparr>)"

section \<open>Pagination stage (paginateResults, lib/api/pagination-service.ts)\<close>

text \<open>
  \<open>slice\<close> is \<open>Array.prototype.slice(start, end)\<close> on integer arguments: a negative index
  counts from the end, both indices are clamped to the length, and nothing is returned
  when the end does not lie behind the start. The parameters \<open>page\<close> and \<open>limit\<close>, which
  default to 1 and 12 when the caller leaves them out, are \<open>pageArg\<close> and \<open>limitArg\<close>.
\<close>

definition slice :: "'a list \<Rightarrow> int \<Rightarrow> int \<Rightarrow> 'a list" where
  "slice xs start end =
     (let len = int (length xs);
          k = (if start < 0 then max (len + start) 0 else min start len);
          final = (if end < 0 then max (len + end) 0 else min end len)
      in take (nat (final - k)) (drop (nat k) xs))"

definition paginateResults :: "'a list \<Rightarrow> real \<Rightarrow> real \<Rightarrow> 'a PaginatedResponse" where
  "paginateResults items pageArg limitArg =
     (let currentPage = max 1 \<lfloor>pageArg\<rfloor>;
          itemsPerPage = min (max 1 \<lfloor>limitArg\<rfloor>) 100;
          total = int (length items);
          pages = \<lceil>real_of_int total / real_of_int itemsPerPage\<rceil>;
          startIndex = (currentPage - 1) * itemsPerPage;
          endIndex = startIndex + itemsPerPage
      in \<lparr> data = slice items startIndex endIndex,
           pagination = \<lparr> page = currentPage, limit = itemsPerPage, total' = total,
                          totalPages = pages, hasNext = currentPage < pages,
                          hasPrev = currentPage > 1 \<rparr> \<rparr>)"

section \<open>Query orchestrator (getProducts, lib/api/products-service.ts, in-memory version)\<close>

text \<open>
  The catalogue \<open>products\<close> of \<open>lib/data/products.ts\<close> is a parameter. \<open>v || d\<close> on an
  optional number is \<open>d\<close> when \<open>v\<close> is absent or 0.
\<close>

definition or_default :: "real option \<Rightarrow> real \<Rightarrow> real" where
  "or_default v d = (case v of None \<Rightarrow> d | Some x \<Rightarrow> if x = 0 then d else x)"

definition getProducts ::
  "(string \<Rightarrow> string \<Rightarrow> int) \<Rightarrow> Product list \<Rightarrow> FilterParams \<Rightarrow> Product PaginatedResponse" where
  "getProducts localeCompare products filters =
     (let results = products;
          results = filterProducts results filters;
          results = sortProducts localeCompare results (f_sortBy filters);
          pageArg = or_default (f_page filters) 1;
          limitArg = or_default (f_limit filters) 12
      in paginateResults results pageArg limitArg)"

section \<open>The specification's view\<close>

text \<open>
  The weighted-scoring table of the specification (section 4.2), one row per condition,
  evaluated and summed; the weight of the row \<open>product.featured\<close> is a parameter, and the
  specification's table has 3 there.
\<close>

definition scoring_table :: "int \<Rightarrow> string \<Rightarrow> Product \<Rightarrow> (bool \<times> int) list" where
  "scoring_table featured_weight query product =
     (let lname = toLowerCase (name product);
          partial = (includes_str lname query \<and> lname \<noteq> query)
      in [(lname = query, 100),
          (partial, 50),
          (partial \<and> startsWith lname query, 10),
          (includes_str (toLowerCase (description product)) query, 20),
          ((case longDescription product of None \<Rightarrow> False
            | Some d \<Rightarrow> includes_str (toLowerCase d) query), 10)]
         @ map (\<lambda>tag. (toLowerCase tag = query, 30)) (tags product)
         @ map (\<lambda>tag. (includes_str (toLowerCase tag) query \<and> toLowerCase tag \<noteq> query, 10))
             (tags product)
         @ [(includes_str (toLowerCase (category product)) query, 5),
            (featured product, featured_weight),
            (inStock (inventory product), 3)])"

definition table_score :: "int \<Rightarrow> string \<Rightarrow> Product \<Rightarrow> int" where
  "table_score featured_weight query product =
     sum_list (map snd (filter fst (scoring_table featured_weight query product)))"

definition spec_score :: "string \<Rightarrow> Product \<Rightarrow> int" where
  "spec_score query product = table_score 3 query product"

text \<open>
  The pipeline of the specification (section 4.6): filter, then search when the trimmed
  query is not empty, then sort, the facets of the filtered set, then paginate; the
  envelope holds the page and the facets.
\<close>

record Envelope =
  result :: "Product PaginatedResponse"
  facets :: FilterOptions

definition spec_getProducts ::
  "(string \<Rightarrow> string \<Rightarrow> int) \<Rightarrow> Product list \<Rightarrow> FilterParams \<Rightarrow> Envelope" where
  "spec_getProducts localeCompare products filters =
     (let filtered = filterProducts products filters;
          searched = (case f_search filters of
                        None \<Rightarrow> filtered
                      | Some q \<Rightarrow> if trim q \<noteq> [] then searchProducts q filtered else filtered);
          sorted = sortProducts localeCompare searched (f_sortBy filters)
      in \<lparr> result = paginateResults sorted (or_default (f_page filters) 1)
                       (or_default (f_limit filters) 12),
           facets = getAvailableFilterOptions filtered \<rparr>)"

section \<open>Concrete products and filters used as test inputs\<close>

definition blank_product :: Product where
  "blank_product =
     \<lparr> id' = [], slug = [], sku = [], name = [], description = [], longDescription = None,
       price = 0, originalPrice = None, currency = ''USD'', category = [],
       subcategory = None, tags = [],
       inventory = \<lparr> inStock = False, quantity = 0, lowStockThreshold = 0,
                     reservedQuantity = 0 \<rparr>,
       images = [], featured = False, isNew = False, rating = None, attributes = [],
       createdAt = 0, updatedAt = 0, publishedAt = None \<rparr>"

definition no_filters :: FilterParams where
  "no_filters =
     \<lparr> f_category = None, f_minPrice = None, f_maxPrice = None, f_inStock = None,
       f_tags = None, f_search = None, f_sortBy = None, f_page = None, f_limit = None \<rparr>"

definition usb_hub :: Product where
  "usb_hub = blank_product \<lparr> id' := ''7'', name := ''Hub'', description := ''USB adapter'',
                             tags := [''usb'', ''office''], category := ''electronics'' \<rparr>"

text \<open>The two products of the specification's search scenario; the fields the scenario
  leaves out are empty.\<close>

definition wireless_headphones :: Product where
  "wireless_headphones =
     blank_product \<lparr> id' := ''1'', name := ''Wireless Headphones'', price := 2999,
                     tags := [''wireless'', ''audio''], featured := True,
                     inventory := \<lparr> inStock = True, quantity = 1, lowStockThreshold = 0,
                                    reservedQuantity = 0 \<rparr> \<rparr>"

definition wired_mouse :: Product where
  "wired_mouse =
     blank_product \<lparr> id' := ''2'', name := ''Wired Mouse'', price := 999,
                     tags := [''wired''],
                     inventory := \<lparr> inStock = True, quantity = 1, lowStockThreshold = 0,
                                    reservedQuantity = 0 \<rparr> \<rparr>"

definition audio_kit :: Product where
  "audio_kit = blank_product \<lparr> id' := ''3'', name := ''Mouse'', description := ''audio kit'' \<rparr>"

definition audio :: Product where
  "audio = blank_product \<lparr> id' := ''4'', name := ''Audio'' \<rparr>"

definition audio_query :: FilterParams where
  "audio_query = no_filters \<lparr> f_search := Some ''audio'' \<rparr>"

text \<open>A collation to run the orchestrator with: comparison by code units.\<close>

definition code_unit_compare :: "string \<Rightarrow> string \<Rightarrow> int" where
  "code_unit_compare a b = (if a < b then - 1 else if a = b then 0 else 1)"

section \<open>Evaluation rules and auxiliary facts\<close>

lemmas string_defs =
  toLowerCase_def toLowerCase_char_def upper_chars_def lower_chars_def
  trim_def is_whitespace_def startsWith_def

lemmas search_defs = searchProducts_def score_def score_tags_def sort_by_def

lemmas filter_defs = filterProducts_def filterProducts_callback_def searchableText_def

lemmas product_defs =
  wireless_headphones_def wired_mouse_def usb_hub_def audio_kit_def audio_def
  blank_product_def no_filters_def

text \<open>The number of pages as an integer division, for evaluation.\<close>

lemma paginateResults_int:
  "paginateResults items pageArg limitArg =
     (let currentPage = max 1 \<lfloor>pageArg\<rfloor>;
          itemsPerPage = min (max 1 \<lfloor>limitArg\<rfloor>) 100;
          total = int (length items);
          pages = - ((- total) div itemsPerPage);
          startIndex = (currentPage - 1) * itemsPerPage
      in \<lparr> data = slice items startIndex (startIndex + itemsPerPage),
           pagination = \<lparr> page = currentPage, limit = itemsPerPage, total' = total,
                          totalPages = pages, hasNext = currentPage < pages,
                          hasPrev = currentPage > 1 \<rparr> \<rparr>)"
  by (simp only: paginateResults_def Let_def ceiling_divide_eq_div)

lemmas page_eval = paginateResults_int slice_def or_default_def

lemma score_tags_sum:
  "score_tags t ts s =
     s + sum_list (map (\<lambda>tag. if toLowerCase tag = t then 30
                              else if includes_str (toLowerCase tag) t then 10 else 0) ts)"
  unfolding score_tags_def
  by (induction ts arbitrary: s) simp_all

lemma tag_rows_sum:
  "sum_list (map snd (filter fst (map (\<lambda>tag. (toLowerCase tag = t, 30)) ts)))
   + sum_list (map snd (filter fst
       (map (\<lambda>tag. (includes_str (toLowerCase tag) t \<and> toLowerCase tag \<noteq> t, 10)) ts)))
   = sum_list (map (\<lambda>tag. if toLowerCase tag = t then 30
                           else if includes_str (toLowerCase tag) t then 10 else (0::int)) ts)"
  by (induction ts) simp_all

lemma tag_points_nonneg:
  "0 \<le> sum_list (map (\<lambda>tag. if toLowerCase tag = t then 30
            else if includes_str (toLowerCase tag) t then 10 else (0::int)) ts)"
  by (rule sum_list_nonneg) auto

lemma includes_str_self: "includes_str s s"
  by (cases s) simp_all

lemma score_table: "score t p = table_score 5 t p"
  using tag_rows_sum [of t "tags p"]
  by (simp add: score_def table_score_def scoring_table_def Let_def score_tags_sum includes_str_self)

lemma score_boost: "inStock (inventory p) \<or> featured p \<Longrightarrow> 0 < score t p"
  using tag_points_nonneg [of t "tags p"]
  by (auto simp add: score_def Let_def score_tags_sum)

lemma set_insert_by: "set (insert_by c x xs) = insert x (set xs)"
  by (induction xs) auto

lemma set_sort_by: "set (sort_by c xs) = set xs"
  by (induction xs) (simp_all add: sort_by_def set_insert_by)

lemma length_insert_by: "length (insert_by c x xs) = Suc (length xs)"
  by (induction xs) simp_all

lemma length_sort_by: "length (sort_by c xs) = length xs"
  by (induction xs) (simp_all add: sort_by_def length_insert_by)

lemma filter_scored:
  "filter (\<lambda>scored. snd scored > 0) (map (\<lambda>product. (product, f product)) ps)
     = map (\<lambda>product. (product, f product)) (filter (\<lambda>product. f product > (0::int)) ps)"
  by (induction ps) simp_all

lemma set_searchProducts:
  "trim (toLowerCase q) \<noteq> [] \<Longrightarrow>
   set (searchProducts q ps) = {p \<in> set ps. 0 < score (trim (toLowerCase q)) p}"
  by (simp add: searchProducts_def Let_def set_sort_by filter_scored image_image)

lemma slice_nonneg:
  "0 \<le> s \<Longrightarrow> s \<le> e \<Longrightarrow> slice xs s e = take (nat (e - s)) (drop (nat s) xs)"
  by (auto simp add: slice_def Let_def min_def)

lemma data_paginateResults:
  assumes "1 \<le> p"
  shows "data (paginateResults items (of_int p) limitArg)
           = take (nat (min (max 1 \<lfloor>limitArg\<rfloor>) 100))
               (drop (nat (p - 1) * nat (min (max 1 \<lfloor>limitArg\<rfloor>) 100)) items)"
proof -
  let ?l = "min (max 1 \<lfloor>limitArg\<rfloor>) 100"
  have l: "1 \<le> ?l" by simp
  have start: "0 \<le> (p - 1) * ?l"
    using assms l by simp
  have "data (paginateResults items (of_int p) limitArg)
          = slice items ((p - 1) * ?l) ((p - 1) * ?l + ?l)"
    using assms by (simp add: paginateResults_def Let_def max_def)
  also have "\<dots> = take (nat ?l) (drop (nat ((p - 1) * ?l)) items)"
    using start l by (simp add: slice_nonneg)
  also have "nat ((p - 1) * ?l) = nat (p - 1) * nat ?l"
    using assms l by (simp add: nat_mult_distrib)
  finally show ?thesis .
qed

lemma upto_from_1: "[1..int k] = map (\<lambda>i. int i + 1) [0..<k]"
proof (induction k)
  case 0
  show ?case by simp
next
  case (Suc k)
  have "[1..int (Suc k)] = [1..int k] @ [int k + 1]"
    using upto_rec2 [of 1 "int k + 1"] by (simp add: add.commute)
  then show ?case
    by (simp add: Suc.IH)
qed

lemma concat_chunks:
  "concat (map (\<lambda>i. take l (drop (i * l) xs)) [0..<k]) = take (k * l) xs"
proof (induction k)
  case 0
  show ?case by simp
next
  case (Suc k)
  have "take (k * l + l) xs = take (k * l) xs @ take l (drop (k * l) xs)"
    by (rule take_add)
  then show ?case
    by (simp add: Suc.IH add.commute)
qed

lemma pages_cover:
  assumes "1 \<le> (l::int)"
  shows "0 \<le> - ((- int n) div l)" and "n \<le> nat (- ((- int n) div l)) * nat l"
proof -
  have neg: "(- int n) div l \<le> 0"
    using assms zdiv_mono1 [of "- int n" 0 l] by simp
  then show "0 \<le> - ((- int n) div l)" by simp
  have "(- int n) div l * l + (- int n) mod l = - int n"
    by simp
  moreover have "0 \<le> (- int n) mod l"
    using assms by simp
  ultimately have "(- int n) div l * l \<le> - int n"
    by linarith
  then have "int n \<le> (- ((- int n) div l)) * l"
    by simp
  also have "\<dots> = int (nat (- ((- int n) div l)) * nat l)"
    using neg assms by simp
  finally have "int n \<le> int (nat (- ((- int n) div l)) * nat l)" .
  then show "n \<le> nat (- ((- int n) div l)) * nat l"
    by (simp only: of_nat_le_iff)
qed

lemma length_sortProducts: "length (sortProducts lc ps key) = length ps"
  by (simp add: sortProducts_def length_sort_by split: option.split)

section \<open>Properties of the filter stage\<close>

text \<open>
  C9. For every product list and every FilterParams, filterProducts with inStock
  explicitly false returns the same output as the same FilterParams with inStock absent:
  the stock criterion reads \<open>filters.inStock && !product.inventory.inStock\<close>, so only
  a true flag restricts the result.
\<close>

theorem filterProducts_inStock_false_is_absent:
  "filterProducts products (filters \<lparr> f_inStock := Some False \<rparr>)
     = filterProducts products (filters \<lparr> f_inStock := None \<rparr>)"
proof -
  have same_callback: "filterProducts_callback (filters \<lparr> f_inStock := Some False \<rparr>)
      = filterProducts_callback (filters \<lparr> f_inStock := None \<rparr>)"
    by (rule ext) (simp add: filterProducts_callback_def)
  show ?thesis
    by (simp only: filterProducts_def same_callback)
qed

text \<open>
  C10. There is a product and a non-empty search string that filterProducts' search
  criterion accepts although neither the name, nor the description, nor any single tag,
  nor the category contains the string (lower-cased or not): the criterion looks for the
  string in the space-joined concatenation of these fields, and \<open>b u\<close> lies across the
  boundary between the name \<open>Hub\<close> and the description \<open>USB adapter\<close>.
\<close>

theorem filterProducts_search_matches_across_fields:
  "\<exists>product s. s \<noteq> [] \<and> trim (toLowerCase s) \<noteq> []
     \<and> filterProducts [product] (no_filters \<lparr> f_search := Some s \<rparr>) = [product]
     \<and> \<not> list_ex (\<lambda>field. includes_str field s \<or> includes_str (toLowerCase field) (trim (toLowerCase s)))
           ([name product, description product] @ tags product @ [category product])"
proof (intro exI conjI)
  show "''b u'' \<noteq> []" by simp
  show "trim (toLowerCase ''b u'') \<noteq> []" by (simp add: string_defs)
  show "filterProducts [usb_hub] (no_filters \<lparr> f_search := Some ''b u'' \<rparr>) = [usb_hub]"
    by (simp add: filterProducts_def filterProducts_callback_def searchableText_def
        usb_hub_def blank_product_def no_filters_def string_defs)
  show "\<not> list_ex (\<lambda>field. includes_str field ''b u''
            \<or> includes_str (toLowerCase field) (trim (toLowerCase ''b u'')))
          ([name usb_hub, description usb_hub] @ tags usb_hub @ [category usb_hub])"
    by (simp add: usb_hub_def blank_product_def string_defs)
qed

section \<open>Properties of the search stage\<close>

text \<open>
  C2, as the code has it. For the two products of the scenario, searchProducts with the
  query \<open>wireless\<close> returns the headphones in first place, and their relevance score is
  98: 50 for name-contains, 10 for starts-with, 30 for the exact tag, 5 for featured and
  3 for in stock. Nothing is stated here about the second product.
\<close>

theorem searchProducts_scenario_wireless:
  "take 1 (searchProducts ''wireless'' [wireless_headphones, wired_mouse])
     = [wireless_headphones]
   \<and> score ''wireless'' wireless_headphones = 50 + 10 + 30 + 5 + 3
   \<and> score ''wireless'' wireless_headphones = 98"
  by (simp add: search_defs product_defs string_defs)

text \<open>
  C2 as stated fails: the score of the headphones is not 106. Nor is the result the
  headphones alone, since the mouse, which is in stock, does not score 0; the filter
  \<open>score > 0\<close> is commented \<open>Only include matches\<close> in the source, and the mouse
  matches the query in no field.
\<close>

theorem searchProducts_scenario_counterexample:
  "searchProducts ''wireless'' [wireless_headphones, wired_mouse] \<noteq> [wireless_headphones]
   \<and> score ''wireless'' wireless_headphones \<noteq> 106
   \<and> score ''wireless'' wired_mouse \<noteq> 0"
  by (simp add: search_defs product_defs string_defs)

text \<open>
  C3, as the code has it. For every product and every query whose trimmed lower-cased
  form is not empty, the relevance score is the sum of the rows of the scoring table
  that apply, where the row for a featured product weighs 5 (and the row for a product in
  stock 3); searchProducts returns exactly the products whose score is positive.
\<close>

theorem score_is_table_with_featured_5:
  assumes "trim (toLowerCase query) \<noteq> []"
  shows "score (trim (toLowerCase query)) product
           = table_score 5 (trim (toLowerCase query)) product
       \<and> set (searchProducts query products)
           = {p \<in> set products. 0 < score (trim (toLowerCase query)) p}"
  using assms by (simp add: score_table set_searchProducts)

theorem score_is_table_with_featured_5_witness:
  "trim (toLowerCase ''Wireless '') \<noteq> []
   \<and> score (trim (toLowerCase ''Wireless '')) wireless_headphones
       = table_score 5 (trim (toLowerCase ''Wireless '')) wireless_headphones
   \<and> set (searchProducts ''Wireless '' [wireless_headphones, usb_hub])
       = {p \<in> set [wireless_headphones, usb_hub].
            0 < score (trim (toLowerCase ''Wireless '')) p}"
proof -
  have q: "trim (toLowerCase ''Wireless '') \<noteq> []"
    by (simp add: string_defs)
  show ?thesis
    using q score_is_table_with_featured_5
      [OF q, of wireless_headphones "[wireless_headphones, usb_hub]"]
    by simp
qed

text \<open>
  C3 as stated fails: on the featured headphones the code's score is 98, the sum of the
  specification's table, with 3 for featured, is 96.
\<close>

theorem score_featured_counterexample:
  "score ''wireless'' wireless_headphones \<noteq> spec_score ''wireless'' wireless_headphones
   \<and> score ''wireless'' wireless_headphones = 98
   \<and> spec_score ''wireless'' wireless_headphones = 96"
  by (simp add: search_defs spec_score_def table_score_def scoring_table_def
      product_defs string_defs)

text \<open>
  C4, as the code has it. For every product list, searchProducts with a query that is
  empty after lower-casing and trimming returns the empty list.
\<close>

theorem searchProducts_blank_query_returns_nothing:
  "trim (toLowerCase query) = [] \<Longrightarrow> searchProducts query products = []"
  by (simp add: searchProducts_def)

theorem searchProducts_blank_query_returns_nothing_witness:
  "trim (toLowerCase ''  '') = [] \<and> searchProducts ''  '' [usb_hub, wired_mouse] = []"
proof -
  have blank: "trim (toLowerCase ''  '') = []"
    by (simp add: string_defs)
  show ?thesis
    using blank searchProducts_blank_query_returns_nothing [OF blank, of "[usb_hub, wired_mouse]"]
    by simp
qed

text \<open>C4 as stated fails: the empty query does not return the list it was given.\<close>

theorem searchProducts_empty_query_counterexample:
  "searchProducts [] [usb_hub] \<noteq> [usb_hub]"
  by (simp add: search_defs string_defs)

text \<open>
  C8. For every product list and every query whose trimmed lower-cased form is not
  empty, every product that is in stock, and every product that is featured, is in the
  output of searchProducts, whether or not the query occurs in any of its fields.
\<close>

theorem searchProducts_keeps_boosted_products:
  assumes "trim (toLowerCase query) \<noteq> []"
    and "product \<in> set products"
    and "inStock (inventory product) \<or> featured product"
  shows "product \<in> set (searchProducts query products)"
  using assms score_boost [of product "trim (toLowerCase query)"]
  by (simp add: set_searchProducts)

text \<open>The mouse of the scenario is in stock, matches \<open>wireless\<close> in no field, and is returned.\<close>

theorem searchProducts_keeps_boosted_products_witness:
  "trim (toLowerCase ''wireless'') \<noteq> []
   \<and> wired_mouse \<in> set [wireless_headphones, wired_mouse]
   \<and> (inStock (inventory wired_mouse) \<or> featured wired_mouse)
   \<and> \<not> list_ex (\<lambda>field. includes_str (toLowerCase field) (trim (toLowerCase ''wireless'')))
         ([name wired_mouse, description wired_mouse] @ tags wired_mouse @ [category wired_mouse])
   \<and> longDescription wired_mouse = None
   \<and> wired_mouse \<in> set (searchProducts ''wireless'' [wireless_headphones, wired_mouse])"
proof -
  have q: "trim (toLowerCase ''wireless'') \<noteq> []"
    by (simp add: string_defs)
  have m: "wired_mouse \<in> set [wireless_headphones, wired_mouse]"
    by simp
  have b: "inStock (inventory wired_mouse) \<or> featured wired_mouse"
    by (simp add: product_defs)
  have n: "\<not> list_ex (\<lambda>field. includes_str (toLowerCase field) (trim (toLowerCase ''wireless'')))
         ([name wired_mouse, description wired_mouse] @ tags wired_mouse @ [category wired_mouse])"
    by (simp add: product_defs string_defs)
  have l: "longDescription wired_mouse = None"
    by (simp add: product_defs)
  show ?thesis
    using q m b n l searchProducts_keeps_boosted_products [OF q m b]
    by simp
qed

section \<open>Properties of the facet summary\<close>

text \<open>
  C5, as the code has it. The facet summary of the empty product list has no categories
  and no tags, and its price range is \<open>min = Infinity\<close>, \<open>max = -Infinity\<close>, the values
  of \<open>Math.min()\<close> and \<open>Math.max()\<close>; no sentinel takes their place.
\<close>

theorem getAvailableFilterOptions_empty:
  "getAvailableFilterOptions [] =
     \<lparr> categories = [], tags' = [],
       priceRange = \<lparr> min' = Infinity, max' = NegInfinity \<rparr> \<rparr>"
  by (simp add: getAvailableFilterOptions_def Math_min_def Math_max_def Array_from_Set_def)

text \<open>C5 as stated fails: the price range of the empty list is not \<open>{0, 0}\<close>.\<close>

theorem getAvailableFilterOptions_empty_counterexample:
  "getAvailableFilterOptions [] \<noteq>
     \<lparr> categories = [], tags' = [],
       priceRange = \<lparr> min' = Finite 0, max' = Finite 0 \<rparr> \<rparr>"
  by (simp add: getAvailableFilterOptions_def Math_min_def Math_max_def Array_from_Set_def)

section \<open>Properties of the pagination stage\<close>

text \<open>
  C6, as the code has it. For every page and limit argument that is a finite number
  (the type \<open>real\<close>: neither NaN nor an infinity), paginateResults on the empty list
  returns \<open>totalPages = 0\<close> and \<open>hasNext = false\<close>; \<open>hasPrev\<close> is true exactly when the page
  argument is 2 or more, since it only compares the normalised page with 1. A limit of
  NaN, which the source's parameter type admits, is not covered: there
  \<open>Math.ceil(0 / NaN)\<close> is NaN.
\<close>

theorem paginateResults_empty:
  "totalPages (pagination (paginateResults [] pageArg limitArg)) = 0
   \<and> \<not> hasNext (pagination (paginateResults [] pageArg limitArg))
   \<and> (hasPrev (pagination (paginateResults [] pageArg limitArg)) \<longleftrightarrow> 2 \<le> pageArg)"
proof -
  have "1 < max 1 \<lfloor>pageArg\<rfloor> \<longleftrightarrow> 2 \<le> \<lfloor>pageArg\<rfloor>"
    by linarith
  also have "\<dots> \<longleftrightarrow> 2 \<le> pageArg"
    by (simp add: le_floor_iff)
  finally show ?thesis
    by (simp add: paginateResults_def Let_def)
qed

text \<open>C6 as stated fails: page 2 of the empty list has a previous page.\<close>

theorem paginateResults_empty_counterexample:
  "totalPages (pagination (paginateResults ([] :: Product list) 2 12)) = 0
   \<and> hasPrev (pagination (paginateResults ([] :: Product list) 2 12))"
  by (simp add: page_eval)

text \<open>
  C7. For every item list and every limit from 1 to 100, the data slices of
  paginateResults for the pages 1 to totalPages, with that limit, concatenated in
  order, are the item list itself: nothing is left out and nothing is repeated.
\<close>

theorem paginateResults_pages_cover_items:
  assumes "1 \<le> limitArg" and "limitArg \<le> 100"
  shows "concat (map (\<lambda>p. data (paginateResults items (of_int p) limitArg))
           [1..totalPages (pagination (paginateResults items 1 limitArg))]) = items"
proof -
  let ?l = "min (max 1 \<lfloor>limitArg\<rfloor>) 100"
  let ?k = "nat (- ((- int (length items)) div ?l))"
  have l: "1 \<le> ?l" by simp
  have tp: "totalPages (pagination (paginateResults items 1 limitArg)) = int ?k"
    using pages_cover(1) [OF l, of "length items"]
    by (simp add: paginateResults_int Let_def)
  have each: "data (paginateResults items (of_int (int i + 1)) limitArg)
                = take (nat ?l) (drop (i * nat ?l) items)" for i
    using data_paginateResults [of "int i + 1" items limitArg] by simp
  have "concat (map (\<lambda>p. data (paginateResults items (of_int p) limitArg)) [1..int ?k])
          = concat (map (\<lambda>i. take (nat ?l) (drop (i * nat ?l) items)) [0..<?k])"
    by (simp only: upto_from_1 map_map o_def each)
  also have "\<dots> = take (?k * nat ?l) items"
    by (rule concat_chunks)
  also have "\<dots> = items"
    using pages_cover(2) [OF l, of "length items"] by simp
  finally show ?thesis
    by (simp only: tp)
qed

text \<open>Three items with limit 2: two pages, of two items and of one.\<close>

theorem paginateResults_pages_cover_items_witness:
  "(1::real) \<le> 2 \<and> (2::real) \<le> 100
   \<and> totalPages (pagination (paginateResults [wireless_headphones, wired_mouse, usb_hub] 1 2)) = 2
   \<and> concat (map (\<lambda>p. data (paginateResults [wireless_headphones, wired_mouse, usb_hub] (of_int p) 2))
        [1..totalPages (pagination (paginateResults [wireless_headphones, wired_mouse, usb_hub] 1 2))])
       = [wireless_headphones, wired_mouse, usb_hub]"
proof -
  have lo: "(1::real) \<le> 2" and hi: "(2::real) \<le> 100"
    by simp_all
  have tp: "totalPages (pagination (paginateResults [wireless_headphones, wired_mouse, usb_hub] 1 2)) = 2"
    by (simp add: page_eval)
  show ?thesis
    using lo hi tp paginateResults_pages_cover_items [OF lo hi, of "[wireless_headphones, wired_mouse, usb_hub]"]
    by simp
qed

section \<open>Properties of the orchestrator\<close>

text \<open>
  C1, as the code has it. For every FilterParams, getProducts returns the result of the
  pipeline filterProducts, then sortProducts, then paginateResults with page 1 and
  limit 12 as defaults: there is no relevance-scoring stage between filtering and
  sorting, and the response is the page with its metadata, in which \<open>total\<close> counts the
  products left by the filter.
\<close>

theorem getProducts_is_filter_sort_paginate:
  "getProducts localeCompare products filters
     = paginateResults
         (sortProducts localeCompare (filterProducts products filters) (f_sortBy filters))
         (or_default (f_page filters) 1) (or_default (f_limit filters) 12)
   \<and> total' (pagination (getProducts localeCompare products filters))
       = int (length (filterProducts products filters))"
  by (simp add: getProducts_def paginateResults_def Let_def length_sortProducts)

text \<open>
  C1 as stated fails: with the query \<open>audio\<close> and no sort key the code returns the two
  matching products in catalogue order, while the pipeline of the specification ranks the
  product named \<open>Audio\<close> (score 100) before the one that mentions audio in its
  description (score 20).
\<close>

theorem getProducts_counterexample:
  "getProducts code_unit_compare [audio_kit, audio] audio_query
     \<noteq> result (spec_getProducts code_unit_compare [audio_kit, audio] audio_query)
   \<and> data (getProducts code_unit_compare [audio_kit, audio] audio_query) = [audio_kit, audio]
   \<and> data (result (spec_getProducts code_unit_compare [audio_kit, audio] audio_query))
       = [audio, audio_kit]"
proof -
  have f: "filterProducts [audio_kit, audio] audio_query = [audio_kit, audio]"
    by (simp add: filter_defs audio_query_def product_defs string_defs)
  have s: "searchProducts ''audio'' [audio_kit, audio] = [audio, audio_kit]"
    by (simp add: search_defs product_defs string_defs)
  have t: "trim ''audio'' \<noteq> []"
    by (simp add: string_defs)
  have q: "f_search audio_query = Some ''audio''" "f_sortBy audio_query = None"
    "f_page audio_query = None" "f_limit audio_query = None"
    by (simp_all add: audio_query_def no_filters_def)
  have p: "data (paginateResults [x, y] 1 12) = [x, y]" for x y :: Product
    by (simp add: page_eval Let_def)
  have d: "data (getProducts code_unit_compare [audio_kit, audio] audio_query)
             = [audio_kit, audio]"
    by (simp add: getProducts_def f p q sortProducts_def or_default_def)
  have e: "data (result (spec_getProducts code_unit_compare [audio_kit, audio] audio_query))
             = [audio, audio_kit]"
    by (simp add: spec_getProducts_def f s t p q sortProducts_def or_default_def)
  have "audio_kit \<noteq> audio"
    by (simp add: product_defs)
  then have "[audio_kit, audio] \<noteq> [audio, audio_kit]"
    by simp
  with d e show ?thesis
    by metis
qed

end
